theory Spec2Isabelle
  imports Complex_Main
begin

section \<open>Fixed-size column vectors\<close>

text \<open>
  Modelled from the spec: the 3-element and 6-element numeric columns \<^verbatim>\<open>Vector3<T>\<close> and
  \<^verbatim>\<open>Vector6<T>\<close> that \<^verbatim>\<open>MotionVec.h\<close> takes from the dense linear-algebra library (their
  declarations are not part of the header). A column of fixed size is a constructor with
  one argument per coefficient, head first. The scalar type \<open>T\<close> is a type variable with
  the arithmetic operators the header uses. The theorems below read it either as a
  commutative ring (exact arithmetic) or as the type \<open>double\<close> defined further down (IEEE
  double precision, with rounding, overflow to infinity and NaN).
\<close>

datatype 'a vector3 = Vector3 'a 'a 'a

datatype 'a vector6 = Vector6 'a 'a 'a 'a 'a 'a

text \<open>Modelled from the spec: \<^verbatim>\<open>head<3>()\<close>, the first three coefficients of a 6-column.\<close>

fun head3 :: "'a vector6 \<Rightarrow> 'a vector3" where
  "head3 (Vector6 c0 c1 c2 c3 c4 c5) = Vector3 c0 c1 c2"

text \<open>Modelled from the spec: \<^verbatim>\<open>tail<3>()\<close>, the last three coefficients of a 6-column.\<close>

fun tail3 :: "'a vector6 \<Rightarrow> 'a vector3" where
  "tail3 (Vector6 c0 c1 c2 c3 c4 c5) = Vector3 c3 c4 c5"

text \<open>
  Modelled from the spec: the comma initialiser \<^verbatim>\<open>(vector6_t() << a, b).finished()\<close>, which
  fills a 6-column with the coefficients of \<open>a\<close> followed by those of \<open>b\<close>.
\<close>

fun comma6 :: "'a vector3 \<Rightarrow> 'a vector3 \<Rightarrow> 'a vector6" where
  "comma6 (Vector3 a0 a1 a2) (Vector3 b0 b1 b2) = Vector6 a0 a1 a2 b0 b1 b2"

text \<open>Modelled from the spec: coefficientwise sum, difference and negation of 6-columns.\<close>

fun plus6 :: "'a::plus vector6 \<Rightarrow> 'a vector6 \<Rightarrow> 'a vector6" where
  "plus6 (Vector6 a0 a1 a2 a3 a4 a5) (Vector6 b0 b1 b2 b3 b4 b5) =
     Vector6 (a0 + b0) (a1 + b1) (a2 + b2) (a3 + b3) (a4 + b4) (a5 + b5)"

fun minus6 :: "'a::minus vector6 \<Rightarrow> 'a vector6 \<Rightarrow> 'a vector6" where
  "minus6 (Vector6 a0 a1 a2 a3 a4 a5) (Vector6 b0 b1 b2 b3 b4 b5) =
     Vector6 (a0 - b0) (a1 - b1) (a2 - b2) (a3 - b3) (a4 - b4) (a5 - b5)"

fun uminus6 :: "'a::uminus vector6 \<Rightarrow> 'a vector6" where
  "uminus6 (Vector6 a0 a1 a2 a3 a4 a5) = Vector6 (- a0) (- a1) (- a2) (- a3) (- a4) (- a5)"

text \<open>
  Modelled from the spec: \<^verbatim>\<open>scalar * column\<close>, every coefficient multiplied by the scalar, the
  scalar on the left.
\<close>

fun scale6 :: "'a::times \<Rightarrow> 'a vector6 \<Rightarrow> 'a vector6" where
  "scale6 k (Vector6 a0 a1 a2 a3 a4 a5) =
     Vector6 (k * a0) (k * a1) (k * a2) (k * a3) (k * a4) (k * a5)"

text \<open>
  Modelled from the spec: comparison of 6-columns. \<^verbatim>\<open>==\<close> holds when every pair of
  coefficients compares equal under the \<^verbatim>\<open>==\<close> of \<open>T\<close>, and \<^verbatim>\<open>!=\<close> when some pair compares
  unequal under the \<^verbatim>\<open>!=\<close> of \<open>T\<close>. The two comparisons of \<open>T\<close> are the parameters \<open>eqT\<close> and
  \<open>neqT\<close>: for an exact scalar type they are the equality of HOL and its negation, for
  \<open>double\<close> they are \<open>eq_double\<close> and \<open>neq_double\<close> below.
\<close>

fun eq6 :: "('a \<Rightarrow> 'a \<Rightarrow> bool) \<Rightarrow> 'a vector6 \<Rightarrow> 'a vector6 \<Rightarrow> bool" where
  "eq6 eqT (Vector6 a0 a1 a2 a3 a4 a5) (Vector6 b0 b1 b2 b3 b4 b5) =
     (eqT a0 b0 \<and> eqT a1 b1 \<and> eqT a2 b2 \<and> eqT a3 b3 \<and> eqT a4 b4 \<and> eqT a5 b5)"

fun neq6 :: "('a \<Rightarrow> 'a \<Rightarrow> bool) \<Rightarrow> 'a vector6 \<Rightarrow> 'a vector6 \<Rightarrow> bool" where
  "neq6 neqT (Vector6 a0 a1 a2 a3 a4 a5) (Vector6 b0 b1 b2 b3 b4 b5) =
     (neqT a0 b0 \<or> neqT a1 b1 \<or> neqT a2 b2 \<or> neqT a3 b3 \<or> neqT a4 b4 \<or> neqT a5 b5)"

text \<open>Modelled from the spec: the sum, the 3D cross product and the dot product of 3-columns.\<close>

fun plus3 :: "'a::plus vector3 \<Rightarrow> 'a vector3 \<Rightarrow> 'a vector3" where
  "plus3 (Vector3 a0 a1 a2) (Vector3 b0 b1 b2) = Vector3 (a0 + b0) (a1 + b1) (a2 + b2)"

fun cross3 :: "'a::{times,minus} vector3 \<Rightarrow> 'a vector3 \<Rightarrow> 'a vector3" where
  "cross3 (Vector3 a0 a1 a2) (Vector3 b0 b1 b2) =
     Vector3 (a1 * b2 - a2 * b1) (a2 * b0 - a0 * b2) (a0 * b1 - a1 * b0)"



section \<open>The motion vector\<close>

text \<open>
  \<^verbatim>\<open>class MotionVec\<close> has the single field \<^verbatim>\<open>mv_\<close>, a 6-column. The constructor
  \<^verbatim>\<open>MotionVec(const vector6_t& vec)\<close> stores its argument, so it is the constructor of the
  datatype, and \<^verbatim>\<open>vector()\<close> returns the field.
\<close>

datatype 'a MotionVec = MotionVec (vector: "'a vector6")

text \<open>
  \<^verbatim>\<open>MotionVec(): mv_() {}\<close>. The field is initialised by the default constructor of the
  6-column type and the body does nothing more. What that constructor leaves in the six
  coefficients is decided by the column type, which the header does not define, so the
  value is the parameter \<open>dflt\<close>. (In C++ the initialiser \<^verbatim>\<open>mv_()\<close> of a member of class
  type with a user-provided default constructor runs that constructor and does not
  zero the storage first.)
\<close>

definition MotionVec_default :: "'a vector6 \<Rightarrow> 'a MotionVec" where
  "MotionVec_default dflt = MotionVec dflt"

text \<open>
  \<^verbatim>\<open>MotionVec(angular, linear): mv_((vector6_t() << angular, linear).finished())\<close>, with
  \<open>ang\<close> and \<open>lin\<close> for the two arguments.
\<close>

definition MotionVec_parts :: "'a vector3 \<Rightarrow> 'a vector3 \<Rightarrow> 'a MotionVec" where
  "MotionVec_parts ang lin = MotionVec (comma6 ang lin)"

definition angular :: "'a MotionVec \<Rightarrow> 'a vector3" where
  "angular mv = head3 (vector mv)"

definition linear :: "'a MotionVec \<Rightarrow> 'a vector3" where
  "linear mv = tail3 (vector mv)"

text \<open>
  \<^verbatim>\<open>cast<T2>()\<close> converts every coefficient; the conversion from \<open>T\<close> to \<open>T2\<close> is the
  parameter \<open>conv\<close>.
\<close>

fun cast6 :: "('a \<Rightarrow> 'b) \<Rightarrow> 'a vector6 \<Rightarrow> 'b vector6" where
  "cast6 conv (Vector6 a0 a1 a2 a3 a4 a5) =
     Vector6 (conv a0) (conv a1) (conv a2) (conv a3) (conv a4) (conv a5)"

definition cast :: "('a \<Rightarrow> 'b) \<Rightarrow> 'a MotionVec \<Rightarrow> 'b MotionVec" where
  "cast conv mv = MotionVec (cast6 conv (vector mv))"

text \<open>The operators \<^verbatim>\<open>+\<close>, binary \<^verbatim>\<open>-\<close> and unary \<^verbatim>\<open>-\<close>.\<close>

definition operator_plus :: "'a::plus MotionVec \<Rightarrow> 'a MotionVec \<Rightarrow> 'a MotionVec" where
  "operator_plus a mv = MotionVec (plus6 (vector a) (vector mv))"

definition operator_minus :: "'a::minus MotionVec \<Rightarrow> 'a MotionVec \<Rightarrow> 'a MotionVec" where
  "operator_minus a mv = MotionVec (minus6 (vector a) (vector mv))"

definition operator_neg :: "'a::uminus MotionVec \<Rightarrow> 'a MotionVec" where
  "operator_neg a = MotionVec (uminus6 (vector a))"

text \<open>
  \<^verbatim>\<open>template<typename T2> MotionVec<T> operator*(T2 scalar) const\<close> returns
  \<^verbatim>\<open>MotionVec<T>(scalar * mv_)\<close>. The scalar has its own type \<open>T2\<close>; the product with a
  column of \<open>T\<close> converts it to \<open>T\<close>, and that conversion is the parameter \<open>conv\<close> (the
  identity when \<open>T2\<close> is \<open>T\<close>).
\<close>

definition operator_mul :: "('b \<Rightarrow> 'a) \<Rightarrow> 'a::times MotionVec \<Rightarrow> 'b \<Rightarrow> 'a MotionVec" where
  "operator_mul conv a scalar = MotionVec (scale6 (conv scalar) (vector a))"

text \<open>The free function \<^verbatim>\<open>operator*(T2 scalar, const MotionVec<T>& mv)\<close> returns \<^verbatim>\<open>mv*scalar\<close>.\<close>

definition operator_mul_left :: "('b \<Rightarrow> 'a) \<Rightarrow> 'b \<Rightarrow> 'a::times MotionVec \<Rightarrow> 'a MotionVec" where
  "operator_mul_left conv scalar mv = operator_mul conv mv scalar"

text \<open>
  \<^verbatim>\<open>operator==\<close> returns \<^verbatim>\<open>mv_ == mv.mv_\<close> and \<^verbatim>\<open>operator!=\<close> returns \<^verbatim>\<open>mv_ != mv.mv_\<close>, with the
  comparisons of \<open>T\<close> as parameters.
\<close>

definition operator_eq :: "('a \<Rightarrow> 'a \<Rightarrow> bool) \<Rightarrow> 'a MotionVec \<Rightarrow> 'a MotionVec \<Rightarrow> bool" where
  "operator_eq eqT a mv = eq6 eqT (vector a) (vector mv)"

definition operator_neq :: "('a \<Rightarrow> 'a \<Rightarrow> bool) \<Rightarrow> 'a MotionVec \<Rightarrow> 'a MotionVec \<Rightarrow> bool" where
  "operator_neq neqT a mv = neq6 neqT (vector a) (vector mv)"


section \<open>The force vector\<close>

text \<open>
  Modelled from the spec: \<^verbatim>\<open>ForceVec<T>\<close>, the dual type, which the header uses and does not
  define. It is a 6-column with the moment in the head and the force in the tail, built
  from its two halves in that order.
\<close>

datatype 'a ForceVec = ForceVec (fv_vector: "'a vector6")

definition ForceVec_parts :: "'a vector3 \<Rightarrow> 'a vector3 \<Rightarrow> 'a ForceVec" where
  "ForceVec_parts moment force = ForceVec (comma6 moment force)"

definition moment :: "'a ForceVec \<Rightarrow> 'a vector3" where
  "moment fv = head3 (fv_vector fv)"

definition force :: "'a ForceVec \<Rightarrow> 'a vector3" where
  "force fv = tail3 (fv_vector fv)"


section \<open>The spatial operations\<close>

text \<open>
  Modelled from the spec: the body of \<^verbatim>\<open>MotionVec<T>::cross\<close>, which the header only
  declares. For \<open>a = (a\<omega>, av)\<close> and \<open>b = (b\<omega>, bv)\<close> the angular part of the result is
  \<open>a\<omega> \<times> b\<omega>\<close> and the linear part is \<open>a\<omega> \<times> bv + av \<times> b\<omega>\<close>.
\<close>

definition cross :: "'a::{times,minus,plus} MotionVec \<Rightarrow> 'a MotionVec \<Rightarrow> 'a MotionVec" where
  "cross a mv2 =
     MotionVec_parts (cross3 (angular a) (angular mv2))
       (plus3 (cross3 (angular a) (linear mv2)) (cross3 (linear a) (angular mv2)))"




section \<open>The scalar type double\<close>

text \<open>
  The scalar type of \<^verbatim>\<open>MotionVec<double>\<close>, and the declared result type of \<^verbatim>\<open>dot\<close>: IEEE 754
  double precision in the default rounding mode (to nearest, ties to even), the semantics
  the spec names for numeric edge cases. A value is a
  finite number, one of the two infinities, or NaN. A finite value is kept as the rational
  number it denotes. The two zeros of IEEE compare equal and are not told apart by
  \<^verbatim>\<open>+\<close>, \<^verbatim>\<open>-\<close>, \<^verbatim>\<open>*\<close>, \<^verbatim>\<open>==\<close> and \<^verbatim>\<open>!=\<close> (the only operations used here) except in the sign of a
  zero result, so they are one value.
\<close>

datatype double = Finite rat | PInf | NInf | NaN

text \<open>The number of binary digits of a natural number.\<close>

fun bit_length :: "nat \<Rightarrow> nat" where
  "bit_length n = (if n = 0 then 0 else Suc (bit_length (n div 2)))"

declare bit_length.simps [simp del]

text \<open>The integer nearest to a rational number, the even one of the two at a tie.\<close>

definition round_half_even :: "rat \<Rightarrow> int" where
  "round_half_even q =
     (let f = \<lfloor>q\<rfloor>; d = q - of_int f in
      if d < 1 / 2 then f else if 1 / 2 < d then f + 1 else if even f then f else f + 1)"

text \<open>
  Rounding of a non-negative rational to 53 significant binary digits. Every finite double
  is a multiple of \<open>2\<^sup>-\<^sup>1\<^sup>0\<^sup>7\<^sup>4\<close>, so \<open>y\<close> is the number in that unit; its integer part has
  \<open>bit_length\<close> digits, of which the leading 53 are kept: the spacing of doubles around \<open>y\<close>
  is \<open>2\<^sup>s\<close> units. Below \<open>2\<^sup>5\<^sup>3\<close> units (subnormal numbers and the first binade) the
  truncated subtraction gives \<open>s = 0\<close>, the fixed spacing \<open>2\<^sup>-\<^sup>1\<^sup>0\<^sup>7\<^sup>4\<close>.
\<close>

definition round_magnitude :: "rat \<Rightarrow> rat" where
  "round_magnitude x =
     (let y = x * 2 ^ 1074;
          s = bit_length (nat \<lfloor>y\<rfloor>) - 53 in
      of_int (round_half_even (y / 2 ^ s)) * 2 ^ s / 2 ^ 1074)"

text \<open>
  The double nearest to an exact result: the magnitude is rounded and the sign kept; a
  rounded magnitude of \<open>2\<^sup>1\<^sup>0\<^sup>2\<^sup>4\<close> or more overflows to the infinity of that sign.
\<close>

definition round_double :: "rat \<Rightarrow> double" where
  "round_double x =
     (if x < 0
      then (if 2 ^ 1024 \<le> round_magnitude (- x) then NInf else Finite (- round_magnitude (- x)))
      else (if 2 ^ 1024 \<le> round_magnitude x then PInf else Finite (round_magnitude x)))"

text \<open>
  The arithmetic of \<open>double\<close>: the exact result of finite operands is rounded; an infinity
  absorbs finite operands; \<open>\<infinity> - \<infinity>\<close> and \<open>0 * \<infinity>\<close> are NaN; NaN propagates. Subtraction is
  addition of the negated operand.
\<close>

instantiation double :: "{zero,uminus,plus,minus,times}"
begin

definition zero_double :: double where
  "zero_double = Finite 0"

fun uminus_double :: "double \<Rightarrow> double" where
  "uminus_double (Finite x) = Finite (- x)"
| "uminus_double PInf = NInf"
| "uminus_double NInf = PInf"
| "uminus_double NaN = NaN"

fun plus_double :: "double \<Rightarrow> double \<Rightarrow> double" where
  "plus_double (Finite x) (Finite y) = round_double (x + y)"
| "plus_double (Finite x) PInf = PInf"
| "plus_double (Finite x) NInf = NInf"
| "plus_double PInf (Finite y) = PInf"
| "plus_double PInf PInf = PInf"
| "plus_double PInf NInf = NaN"
| "plus_double NInf (Finite y) = NInf"
| "plus_double NInf PInf = NaN"
| "plus_double NInf NInf = NInf"
| "plus_double NaN y = NaN"
| "plus_double x NaN = NaN"

definition minus_double :: "double \<Rightarrow> double \<Rightarrow> double" where
  "minus_double x y = x + (- y)"

fun times_double :: "double \<Rightarrow> double \<Rightarrow> double" where
  "times_double (Finite x) (Finite y) = round_double (x * y)"
| "times_double (Finite x) PInf = (if x = 0 then NaN else if 0 < x then PInf else NInf)"
| "times_double (Finite x) NInf = (if x = 0 then NaN else if 0 < x then NInf else PInf)"
| "times_double PInf (Finite y) = (if y = 0 then NaN else if 0 < y then PInf else NInf)"
| "times_double NInf (Finite y) = (if y = 0 then NaN else if 0 < y then NInf else PInf)"
| "times_double PInf PInf = PInf"
| "times_double PInf NInf = NInf"
| "times_double NInf PInf = NInf"
| "times_double NInf NInf = PInf"
| "times_double NaN y = NaN"
| "times_double x NaN = NaN"

instance ..

end

text \<open>
  The comparisons of \<open>double\<close>: \<^verbatim>\<open>==\<close> is false as soon as an operand is NaN and is equality
  otherwise; \<^verbatim>\<open>!=\<close> is its negation.
\<close>

fun eq_double :: "double \<Rightarrow> double \<Rightarrow> bool" where
  "eq_double NaN y = False"
| "eq_double x NaN = False"
| "eq_double x y = (x = y)"

definition neq_double :: "double \<Rightarrow> double \<Rightarrow> bool" where
  "neq_double x y = (\<not> eq_double x y)"

fun isnan :: "double \<Rightarrow> bool" where
  "isnan NaN = True"
| "isnan x = False"

text \<open>A motion vector over \<open>double\<close> has a NaN coefficient.\<close>

fun isnan6 :: "double vector6 \<Rightarrow> bool" where
  "isnan6 (Vector6 a0 a1 a2 a3 a4 a5) =
     (isnan a0 \<or> isnan a1 \<or> isnan a2 \<or> isnan a3 \<or> isnan a4 \<or> isnan a5)"

definition has_nan :: "double MotionVec \<Rightarrow> bool" where
  "has_nan mv = isnan6 (vector mv)"

text \<open>
  A double is finite with magnitude at most \<open>2\<^sup>j\<close>, and so are all coefficients of a
  6-column.
\<close>

fun bounded_by :: "nat \<Rightarrow> double \<Rightarrow> bool" where
  "bounded_by j (Finite r) = (\<bar>r\<bar> \<le> 2 ^ j)"
| "bounded_by j PInf = False"
| "bounded_by j NInf = False"
| "bounded_by j NaN = False"

fun bounded6 :: "nat \<Rightarrow> double vector6 \<Rightarrow> bool" where
  "bounded6 j (Vector6 a0 a1 a2 a3 a4 a5) =
     (bounded_by j a0 \<and> bounded_by j a1 \<and> bounded_by j a2 \<and>
      bounded_by j a3 \<and> bounded_by j a4 \<and> bounded_by j a5)"


section \<open>Coefficients of a value\<close>

lemma MotionVec_coeffs:
  obtains c0 c1 c2 c3 c4 c5 where "mv = MotionVec (Vector6 c0 c1 c2 c3 c4 c5)"
proof (cases mv)
  case (MotionVec v)
  then show thesis
    by (cases v) (auto intro: that)
qed


lemma vector3_coeffs:
  obtains c0 c1 c2 where "v = Vector3 c0 c1 c2"
  by (cases v) auto

lemma angular_coeffs [simp]:
  "angular (MotionVec (Vector6 c0 c1 c2 c3 c4 c5)) = Vector3 c0 c1 c2"
  by (simp add: angular_def)

lemma linear_coeffs [simp]:
  "linear (MotionVec (Vector6 c0 c1 c2 c3 c4 c5)) = Vector3 c3 c4 c5"
  by (simp add: linear_def)

lemma moment_coeffs [simp]:
  "moment (ForceVec (Vector6 c0 c1 c2 c3 c4 c5)) = Vector3 c0 c1 c2"
  by (simp add: moment_def)

lemma force_coeffs [simp]:
  "force (ForceVec (Vector6 c0 c1 c2 c3 c4 c5)) = Vector3 c3 c4 c5"
  by (simp add: force_def)

lemma MotionVec_parts_coeffs [simp]:
  "MotionVec_parts (Vector3 a0 a1 a2) (Vector3 b0 b1 b2) = MotionVec (Vector6 a0 a1 a2 b0 b1 b2)"
  by (simp add: MotionVec_parts_def)

lemma ForceVec_parts_coeffs [simp]:
  "ForceVec_parts (Vector3 a0 a1 a2) (Vector3 b0 b1 b2) = ForceVec (Vector6 a0 a1 a2 b0 b1 b2)"
  by (simp add: ForceVec_parts_def)

lemma cross_coeffs:
  "cross (MotionVec (Vector6 a0 a1 a2 a3 a4 a5)) (MotionVec (Vector6 b0 b1 b2 b3 b4 b5)) =
     MotionVec (Vector6 (a1 * b2 - a2 * b1) (a2 * b0 - a0 * b2) (a0 * b1 - a1 * b0)
       ((a1 * b5 - a2 * b4) + (a4 * b2 - a5 * b1))
       ((a2 * b3 - a0 * b5) + (a5 * b0 - a3 * b2))
       ((a0 * b4 - a1 * b3) + (a3 * b1 - a4 * b0)))"
  by (simp add: cross_def)



lemma head3_comma6 [simp]: "head3 (comma6 a b) = a"
  by (cases a; cases b) simp

lemma tail3_comma6 [simp]: "tail3 (comma6 a b) = b"
  by (cases a; cases b) simp


section \<open>Rounding\<close>

lemma bit_length_0 [simp]: "bit_length 0 = 0"
  by (simp add: bit_length.simps)

lemma bit_length_eq: "2 ^ k \<le> n \<Longrightarrow> n < 2 ^ Suc k \<Longrightarrow> bit_length n = Suc k"
proof (induction k arbitrary: n)
  case 0
  then have "n = 1"
    by simp
  then show ?case
    by (simp add: bit_length.simps)
next
  case (Suc k)
  have "2 ^ k \<le> n div 2"
    using Suc.prems by auto
  moreover have "n div 2 < 2 ^ Suc k"
    using Suc.prems by auto
  ultimately have "bit_length (n div 2) = Suc k"
    by (rule Suc.IH)
  moreover have "n \<noteq> 0"
    using Suc.prems by auto
  ultimately show ?case
    by (subst bit_length.simps) simp
qed

lemma bit_length_floor:
  fixes y :: rat
  assumes "2 ^ k \<le> y" and "y < 2 ^ Suc k"
  shows "bit_length (nat \<lfloor>y\<rfloor>) = Suc k"
proof (rule bit_length_eq)
  have lo: "(2::int) ^ k \<le> \<lfloor>y\<rfloor>"
    using assms(1) by (simp add: le_floor_iff)
  have "(0::int) \<le> 2 ^ k"
    by simp
  with lo have nonneg: "0 \<le> \<lfloor>y\<rfloor>"
    by linarith
  from lo show "2 ^ k \<le> nat \<lfloor>y\<rfloor>"
    by (simp add: le_nat_iff)
  have "\<lfloor>y\<rfloor> < 2 ^ Suc k"
    using assms(2) by (simp add: floor_less_iff)
  with nonneg show "nat \<lfloor>y\<rfloor> < 2 ^ Suc k"
    by (simp add: nat_less_iff)
qed

lemma round_half_even_eq:
  assumes "of_int m - 1 / 2 < q" and "q < of_int m + 1 / 2"
  shows "round_half_even q = m"
proof (cases "of_int m \<le> q")
  case True
  then have "\<lfloor>q\<rfloor> = m"
    using assms by (intro floor_unique) auto
  then show ?thesis
    using assms by (simp add: round_half_even_def Let_def)
next
  case False
  then have "\<lfloor>q\<rfloor> = m - 1"
    using assms by (intro floor_unique) auto
  then show ?thesis
    using assms False by (simp add: round_half_even_def Let_def)
qed

lemma round_half_even_0 [simp]: "round_half_even 0 = 0"
  by (simp add: round_half_even_def)

lemma round_magnitude_0 [simp]: "round_magnitude 0 = 0"
  by (simp add: round_magnitude_def)

lemma round_double_0 [simp]: "round_double 0 = Finite 0"
  by (simp add: round_double_def)

text \<open>
  How a rounding is computed once the binade \<open>k\<close> of the exact result and the nearest
  multiple \<open>m\<close> of the spacing are known.
\<close>

lemma round_magnitude_eqI:
  assumes "2 ^ k \<le> x * 2 ^ 1074" and "x * 2 ^ 1074 < 2 ^ Suc k"
    and "(of_int m - 1 / 2) * 2 ^ (Suc k - 53) < x * 2 ^ 1074"
    and "x * 2 ^ 1074 < (of_int m + 1 / 2) * 2 ^ (Suc k - 53)"
  shows "round_magnitude x = of_int m * 2 ^ (Suc k - 53) / 2 ^ 1074"
proof -
  have b: "bit_length (nat \<lfloor>x * 2 ^ 1074\<rfloor>) = Suc k"
    using assms(1,2) by (rule bit_length_floor)
  have "of_int m - 1 / 2 < x * 2 ^ 1074 / 2 ^ (Suc k - 53)"
    using assms(3) by (simp add: pos_less_divide_eq)
  moreover have "x * 2 ^ 1074 / 2 ^ (Suc k - 53) < of_int m + 1 / 2"
    using assms(4) by (simp add: pos_divide_less_eq)
  ultimately have "round_half_even (x * 2 ^ 1074 / 2 ^ (Suc k - 53)) = m"
    by (rule round_half_even_eq)
  then show ?thesis
    unfolding round_magnitude_def Let_def b by simp
qed

lemma round_double_eqI:
  assumes "2 ^ k \<le> x * 2 ^ 1074" and "x * 2 ^ 1074 < 2 ^ Suc k"
    and "(of_int m - 1 / 2) * 2 ^ (Suc k - 53) < x * 2 ^ 1074"
    and "x * 2 ^ 1074 < (of_int m + 1 / 2) * 2 ^ (Suc k - 53)"
    and "r = of_int m * 2 ^ (Suc k - 53) / 2 ^ 1074" and "r < 2 ^ 1024"
  shows "round_double x = Finite r"
proof -
  have "(0::rat) < 2 ^ k"
    by simp
  with assms(1) have "0 < x * 2 ^ 1074"
    by linarith
  then have "0 < x"
    by (simp add: zero_less_mult_iff)
  moreover have "round_magnitude x = r"
    using assms(1-4) unfolding assms(5) by (rule round_magnitude_eqI)
  ultimately show ?thesis
    using assms(6) by (simp add: round_double_def)
qed

lemma round_double_overflowI:
  assumes "2 ^ k \<le> x * 2 ^ 1074" and "x * 2 ^ 1074 < 2 ^ Suc k"
    and "(of_int m - 1 / 2) * 2 ^ (Suc k - 53) < x * 2 ^ 1074"
    and "x * 2 ^ 1074 < (of_int m + 1 / 2) * 2 ^ (Suc k - 53)"
    and "2 ^ 1024 \<le> of_int m * 2 ^ (Suc k - 53) / (2 ^ 1074 :: rat)"
  shows "round_double x = PInf"
proof -
  have "(0::rat) < 2 ^ k"
    by simp
  with assms(1) have "0 < x * 2 ^ 1074"
    by linarith
  then have "0 < x"
    by (simp add: zero_less_mult_iff)
  moreover have "round_magnitude x = of_int m * 2 ^ (Suc k - 53) / 2 ^ 1074"
    using assms(1-4) by (rule round_magnitude_eqI)
  ultimately show ?thesis
    using assms(5) by (simp add: round_double_def)
qed

lemma round_double_minus: "round_double (- x) = - round_double x"
  by (cases "x = 0") (auto simp add: round_double_def)


section \<open>Laws of double arithmetic\<close>

lemma double_times_commute: "x * y = y * (x::double)"
  by (cases x; cases y) (simp_all add: mult.commute)

lemma double_plus_commute: "x + y = y + (x::double)"
  by (cases x; cases y) (simp_all add: add.commute)

lemma double_uminus_uminus [simp]: "- (- x) = (x::double)"
  by (cases x) simp_all

lemma double_uminus_plus: "- (x + y) = - x + - (y::double)"
  by (cases x; cases y) (simp_all flip: round_double_minus)

lemma double_uminus_minus: "- (x - y) = y - (x::double)"
  by (simp add: minus_double_def double_uminus_plus double_plus_commute)

lemma eq_double_refl: "eq_double x x = (\<not> isnan x)"
  by (cases x) simp_all

lemma eq_double_sym: "eq_double x y = eq_double y x"
  by (cases x; cases y) auto

lemma double_minus_self: "eq_double (x - x) 0 = (\<not> isnan (x - x))"
  by (cases x) (simp_all add: minus_double_def zero_double_def)

lemma double_minus_plus_swap:
  "eq_double ((x - y) + (y - x)) 0 = (\<not> isnan ((x - y) + (y - (x::double))))"
proof -
  have "(x - y) + (y - x) = (x - y) - (x - y)"
    by (simp add: minus_double_def double_uminus_plus double_plus_commute)
  then show ?thesis
    by (simp only: double_minus_self)
qed

lemma eq_double_zero: "eq_double x 0 = (x = 0)"
  by (cases x) (simp_all add: zero_double_def)

lemma cross_double_self:
  fixes d :: "double MotionVec"
  shows "operator_eq eq_double (cross d d) (MotionVec (Vector6 0 0 0 0 0 0)) =
    (\<not> has_nan (cross d d))"
proof -
  obtain d0 d1 d2 d3 d4 d5 where d: "d = MotionVec (Vector6 d0 d1 d2 d3 d4 d5)"
    by (rule MotionVec_coeffs)
  have c: "d2 * d1 = d1 * d2" "d0 * d2 = d2 * d0" "d1 * d0 = d0 * d1"
    "d4 * d2 = d2 * d4" "d5 * d1 = d1 * d5" "d5 * d0 = d0 * d5"
    "d3 * d2 = d2 * d3" "d3 * d1 = d1 * d3" "d4 * d0 = d0 * d4"
    by (rule double_times_commute)+
  show ?thesis
    unfolding d cross_coeffs c
    by (simp add: operator_eq_def has_nan_def double_minus_self double_minus_plus_swap)
qed

lemma operator_eq_double_refl: "operator_eq eq_double d d = (\<not> has_nan d)"
proof -
  obtain d0 d1 d2 d3 d4 d5 where d: "d = MotionVec (Vector6 d0 d1 d2 d3 d4 d5)"
    by (rule MotionVec_coeffs)
  show ?thesis
    by (simp add: d operator_eq_def has_nan_def eq_double_refl)
qed

lemma cross_double_antisymmetric:
  fixes c d :: "double MotionVec"
  shows "cross c d = operator_neg (cross d c)"
proof -
  obtain c0 c1 c2 c3 c4 c5 where c: "c = MotionVec (Vector6 c0 c1 c2 c3 c4 c5)"
    by (rule MotionVec_coeffs)
  obtain d0 d1 d2 d3 d4 d5 where d: "d = MotionVec (Vector6 d0 d1 d2 d3 d4 d5)"
    by (rule MotionVec_coeffs)
  show ?thesis
    unfolding c d cross_coeffs operator_neg_def
    by (simp add: double_uminus_plus double_uminus_minus double_times_commute
        double_plus_commute)
qed


section \<open>Results that cannot overflow\<close>

lemma bit_length_le: "n < 2 ^ j \<Longrightarrow> bit_length n \<le> j"
proof (induction j arbitrary: n)
  case 0
  then show ?case
    by simp
next
  case (Suc j)
  show ?case
  proof (cases "n = 0")
    case True
    then show ?thesis
      by simp
  next
    case False
    have "n div 2 < 2 ^ j"
      using Suc.prems by auto
    then have "bit_length (n div 2) \<le> j"
      by (rule Suc.IH)
    then show ?thesis
      using False by (subst bit_length.simps) simp
  qed
qed

lemma round_half_even_le:
  assumes "q \<le> of_int N"
  shows "round_half_even q \<le> N"
proof (cases "q = of_int N")
  case True
  then show ?thesis
    by (simp add: round_half_even_def)
next
  case False
  with assms have "q < of_int N"
    by simp
  then have "\<lfloor>q\<rfloor> < N"
    by (simp add: floor_less_iff)
  then show ?thesis
    by (auto simp add: round_half_even_def Let_def)
qed

lemma round_half_even_nonneg: "0 \<le> q \<Longrightarrow> 0 \<le> round_half_even q"
  by (auto simp add: round_half_even_def Let_def)

lemma round_magnitude_nonneg:
  assumes "0 \<le> x"
  shows "0 \<le> round_magnitude x"
proof -
  have "0 \<le> x * 2 ^ 1074 / 2 ^ (bit_length (nat \<lfloor>x * 2 ^ 1074\<rfloor>) - 53)"
    using assms by simp
  then have "0 \<le> round_half_even (x * 2 ^ 1074 / 2 ^ (bit_length (nat \<lfloor>x * 2 ^ 1074\<rfloor>) - 53))"
    by (rule round_half_even_nonneg)
  then show ?thesis
    by (simp add: round_magnitude_def Let_def)
qed

lemma round_magnitude_le:
  assumes "0 \<le> x" and "x \<le> 2 ^ j"
  shows "round_magnitude x \<le> 2 ^ j"
proof -
  define y where "y = x * 2 ^ 1074"
  define s where "s = bit_length (nat \<lfloor>y\<rfloor>) - 53"
  have y_le: "y \<le> 2 ^ (j + 1074)"
    using assms by (simp add: y_def power_add mult_right_mono)
  then have "\<lfloor>y\<rfloor> \<le> \<lfloor>2 ^ (j + 1074) :: rat\<rfloor>"
    by (rule floor_mono)
  then have "\<lfloor>y\<rfloor> \<le> 2 ^ (j + 1074)"
    by simp
  then have "nat \<lfloor>y\<rfloor> \<le> 2 ^ (j + 1074)"
    by (simp add: nat_le_iff)
  moreover have "(2::nat) ^ (j + 1074) < 2 ^ Suc (j + 1074)"
    by simp
  ultimately have "nat \<lfloor>y\<rfloor> < 2 ^ Suc (j + 1074)"
    by (rule le_less_trans)
  then have "bit_length (nat \<lfloor>y\<rfloor>) \<le> Suc (j + 1074)"
    by (rule bit_length_le)
  then have s_le: "s \<le> j + 1074"
    by (simp add: s_def)
  have split: "(2::rat) ^ (j + 1074) = 2 ^ (j + 1074 - s) * 2 ^ s"
    using s_le by (simp flip: power_add)
  have "y / 2 ^ s \<le> 2 ^ (j + 1074) / 2 ^ s"
    using y_le by (simp add: divide_right_mono)
  also have "\<dots> = of_int (2 ^ (j + 1074 - s))"
    unfolding split by simp
  finally have "round_half_even (y / 2 ^ s) \<le> 2 ^ (j + 1074 - s)"
    by (rule round_half_even_le)
  then have "rat_of_int (round_half_even (y / 2 ^ s)) \<le> of_int (2 ^ (j + 1074 - s))"
    by (simp only: of_int_le_iff)
  then have "of_int (round_half_even (y / 2 ^ s)) * 2 ^ s / 2 ^ 1074 \<le>
      rat_of_int (2 ^ (j + 1074 - s)) * 2 ^ s / 2 ^ 1074"
    by (simp add: divide_right_mono mult_right_mono)
  also have "\<dots> = 2 ^ (j + 1074) / 2 ^ 1074"
    unfolding split by simp
  also have "\<dots> = 2 ^ j"
    by (simp only: power_add nonzero_mult_div_cancel_right power_eq_0_iff) simp
  finally show ?thesis
    by (simp add: round_magnitude_def y_def s_def Let_def)
qed

lemma round_double_bounded:
  assumes "\<bar>x\<bar> \<le> 2 ^ j" and "j \<le> 1023"
  shows "bounded_by j (round_double x)"
proof -
  have "(2::rat) ^ j < 2 ^ 1024"
    by (rule power_strict_increasing) (use assms(2) in simp_all)
  have m: "0 \<le> round_magnitude \<bar>x\<bar>" "round_magnitude \<bar>x\<bar> \<le> 2 ^ j"
    using assms(1) by (simp_all add: round_magnitude_nonneg round_magnitude_le)
  with \<open>2 ^ j < 2 ^ 1024\<close> have "\<not> 2 ^ 1024 \<le> round_magnitude \<bar>x\<bar>"
    by linarith
  with m show ?thesis
    by (cases "x < 0") (simp_all add: round_double_def abs_if)
qed

lemma round_double_not_nan: "\<not> isnan (round_double x)"
  by (simp add: round_double_def)

lemma bounded_by_not_nan: "bounded_by j x \<Longrightarrow> \<not> isnan x"
  by (cases x) simp_all

lemma bounded_by_times:
  assumes "bounded_by i x" and "bounded_by j y" and "i + j \<le> 1023"
  shows "bounded_by (i + j) (x * y)"
proof -
  obtain a b where xy: "x = Finite a" "y = Finite b"
    using assms(1,2) by (cases x; cases y) simp_all
  have "\<bar>a\<bar> * \<bar>b\<bar> \<le> 2 ^ i * 2 ^ j"
    using assms(1,2) unfolding xy by (intro mult_mono) simp_all
  then have "\<bar>a * b\<bar> \<le> 2 ^ (i + j)"
    by (simp add: abs_mult power_add)
  then show ?thesis
    unfolding xy using assms(3) by (simp add: round_double_bounded)
qed

lemma bounded_by_minus:
  assumes "bounded_by j x" and "bounded_by j y" and "j < 1023"
  shows "bounded_by (Suc j) (x - y)"
proof -
  obtain a b where xy: "x = Finite a" "y = Finite b"
    using assms(1,2) by (cases x; cases y) simp_all
  have "\<bar>a + - b\<bar> \<le> 2 ^ Suc j"
    using assms(1,2) unfolding xy by simp
  then show ?thesis
    unfolding xy minus_double_def using assms(3) by (simp add: round_double_bounded)
qed

lemma finite_plus_not_nan:
  assumes "bounded_by i x" and "bounded_by j y"
  shows "\<not> isnan (x + y)"
proof -
  obtain a b where xy: "x = Finite a" "y = Finite b"
    using assms by (cases x; cases y) simp_all
  show ?thesis
    unfolding xy by (simp add: round_double_not_nan)
qed

lemma cross_double_no_nan:
  assumes "bounded6 511 (vector c)" and "bounded6 511 (vector d)"
  shows "\<not> has_nan (cross c d)"
proof -
  obtain c0 c1 c2 c3 c4 c5 where c: "c = MotionVec (Vector6 c0 c1 c2 c3 c4 c5)"
    by (rule MotionVec_coeffs)
  obtain d0 d1 d2 d3 d4 d5 where d: "d = MotionVec (Vector6 d0 d1 d2 d3 d4 d5)"
    by (rule MotionVec_coeffs)
  have prod: "bounded_by 1022 (x * y)" if "bounded_by 511 x" and "bounded_by 511 y" for x y
    using bounded_by_times [OF that] by simp
  have diff: "bounded_by 1023 (x - y)" if "bounded_by 1022 x" and "bounded_by 1022 y" for x y
    using bounded_by_minus [OF that] by simp
  have pd: "bounded_by 1023 (x * y - u * v)"
    if "bounded_by 511 x" and "bounded_by 511 y" and "bounded_by 511 u" and "bounded_by 511 v"
    for x y u v
    using that by (intro diff prod)
  show ?thesis
    using assms unfolding c d cross_coeffs has_nan_def
    by (simp add: pd bounded_by_not_nan [of 1023] finite_plus_not_nan [of 1023 _ 1023])
qed


section \<open>Construction and accessors\<close>

text \<open>
  C8. For every angular 3-column \<open>a\<close> and linear 3-column \<open>l\<close>, \<^verbatim>\<open>MotionVec(a, l).angular()\<close>
  is exactly \<open>a\<close> and \<^verbatim>\<open>MotionVec(a, l).linear()\<close> is exactly \<open>l\<close>; the constructor stores
  the angular part in coefficients 0 to 2 and the linear part in coefficients 3 to 5.
\<close>

theorem MotionVec_parts_roundtrip:
  "angular (MotionVec_parts a l) = a \<and> linear (MotionVec_parts a l) = l \<and>
   vector (MotionVec_parts (Vector3 a0 a1 a2) (Vector3 l0 l1 l2)) = Vector6 a0 a1 a2 l0 l1 l2"
  by (simp add: MotionVec_parts_def angular_def linear_def)

text \<open>
  C5, as the header has it. \<^verbatim>\<open>MotionVec()\<close> holds exactly what the default constructor of
  the 6-column leaves in the field: the constructor of \<^verbatim>\<open>MotionVec\<close> writes no coefficient
  itself, so the six coefficients are zero if and only if the column type's default
  constructor made them zero.
\<close>

theorem MotionVec_default_vector:
  "vector (MotionVec_default dflt) = dflt \<and>
   (MotionVec_default dflt = MotionVec (Vector6 0 0 0 0 0 0)) = (dflt = Vector6 0 0 0 0 0 0)"
  by (simp add: MotionVec_default_def)

text \<open>
  C5, as the claim states it (all six coefficients of \<^verbatim>\<open>MotionVec()\<close> are zero), fails
  when the default-constructed column is not zero, for instance when the storage left
  uninitialised by the column type holds \<open>(1, 0, 0, 0, 0, 0)\<close>.
\<close>

theorem MotionVec_default_not_zero:
  "MotionVec_default (Vector6 (1::int) 0 0 0 0 0) \<noteq> MotionVec (Vector6 0 0 0 0 0 0)"
  by (simp add: MotionVec_default_def)


section \<open>Scaling and comparison\<close>

text \<open>
  C9. For every scalar \<open>k\<close> of a type \<open>T2\<close> and every motion vector \<open>v\<close> over \<open>T\<close>, \<^verbatim>\<open>k * v\<close>
  and \<^verbatim>\<open>v * k\<close> are the same motion vector over \<open>T\<close>, and each of its coefficients is the
  coefficient of \<open>v\<close> multiplied by \<open>k\<close> (converted to \<open>T\<close>).
\<close>

theorem operator_mul_commute:
  "operator_mul_left conv k v = operator_mul conv v k \<and>
   operator_mul conv (MotionVec (Vector6 c0 c1 c2 c3 c4 c5)) k =
     MotionVec (Vector6 (conv k * c0) (conv k * c1) (conv k * c2)
       (conv k * c3) (conv k * c4) (conv k * c5)) \<and>
   operator_mul_left conv k (MotionVec (Vector6 c0 c1 c2 c3 c4 c5)) =
     MotionVec (Vector6 (conv k * c0) (conv k * c1) (conv k * c2)
       (conv k * c3) (conv k * c4) (conv k * c5))"
  by (simp add: operator_mul_left_def operator_mul_def)

text \<open>
  C10, amended. \<^verbatim>\<open>v == w\<close> holds if and only if the six pairs of coefficients
  compare equal under the \<^verbatim>\<open>==\<close> of the scalar type, with no tolerance. For a scalar type
  whose \<^verbatim>\<open>==\<close> is plain equality, \<^verbatim>\<open>v == v\<close> always holds, \<^verbatim>\<open>v == w\<close> if and only if \<^verbatim>\<open>w == v\<close>,
  and \<^verbatim>\<open>v != w\<close> if and only if \<^verbatim>\<open>v == w\<close> does not hold. For \<open>double\<close>, \<^verbatim>\<open>d == e\<close> if and only
  if \<^verbatim>\<open>e == d\<close>, \<^verbatim>\<open>d != e\<close> if and only if \<^verbatim>\<open>d == e\<close> does not hold, and \<^verbatim>\<open>d == d\<close> holds if and
  only if no coefficient of \<open>d\<close> is NaN.
\<close>

theorem operator_eq_exact:
  fixes v w :: "'a MotionVec" and d e :: "double MotionVec"
  shows
    "operator_eq eqT (MotionVec (Vector6 a0 a1 a2 a3 a4 a5)) (MotionVec (Vector6 b0 b1 b2 b3 b4 b5)) =
       (eqT a0 b0 \<and> eqT a1 b1 \<and> eqT a2 b2 \<and> eqT a3 b3 \<and> eqT a4 b4 \<and> eqT a5 b5) \<and>
     operator_eq (=) v w = (v = w) \<and>
     operator_eq (=) v v \<and>
     operator_eq (=) v w = operator_eq (=) w v \<and>
     operator_neq (\<lambda>x y. x \<noteq> y) v w = (\<not> operator_eq (=) v w) \<and>
     operator_eq eq_double d e = operator_eq eq_double e d \<and>
     operator_neq neq_double d e = (\<not> operator_eq eq_double d e) \<and>
     operator_eq eq_double d d = (\<not> has_nan d)"
proof -
  obtain v0 v1 v2 v3 v4 v5 where v: "v = MotionVec (Vector6 v0 v1 v2 v3 v4 v5)"
    by (rule MotionVec_coeffs)
  obtain w0 w1 w2 w3 w4 w5 where w: "w = MotionVec (Vector6 w0 w1 w2 w3 w4 w5)"
    by (rule MotionVec_coeffs)
  obtain d0 d1 d2 d3 d4 d5 where d: "d = MotionVec (Vector6 d0 d1 d2 d3 d4 d5)"
    by (rule MotionVec_coeffs)
  obtain e0 e1 e2 e3 e4 e5 where e: "e = MotionVec (Vector6 e0 e1 e2 e3 e4 e5)"
    by (rule MotionVec_coeffs)
  have "operator_eq (=) v w = (v = w)"
    by (simp add: v w operator_eq_def)
  moreover have "operator_eq (=) v v"
    by (simp add: v operator_eq_def)
  moreover have "operator_eq (=) v w = operator_eq (=) w v"
    by (auto simp add: v w operator_eq_def)
  moreover have "operator_neq (\<lambda>x y. x \<noteq> y) v w = (\<not> operator_eq (=) v w)"
    by (simp add: v w operator_eq_def operator_neq_def)
  moreover have "operator_eq eq_double d e = operator_eq eq_double e d"
    by (simp add: d e operator_eq_def eq_double_sym [of d0] eq_double_sym [of d1]
        eq_double_sym [of d2] eq_double_sym [of d3] eq_double_sym [of d4] eq_double_sym [of d5])
  moreover have "operator_neq neq_double d e = (\<not> operator_eq eq_double d e)"
    by (simp add: d e operator_eq_def operator_neq_def neq_double_def)
  moreover have "operator_eq eq_double d d = (\<not> has_nan d)"
    by (rule operator_eq_double_refl)
  ultimately show ?thesis
    by (simp add: operator_eq_def)
qed

theorem operator_eq_exact_witness:
  "\<not> has_nan (MotionVec (Vector6 (Finite 1) (Finite 2) (Finite 3) (Finite 4) (Finite 5) (Finite 6))) \<and>
   operator_eq eq_double
     (MotionVec (Vector6 (Finite 1) (Finite 2) (Finite 3) (Finite 4) (Finite 5) (Finite 6)))
     (MotionVec (Vector6 (Finite 1) (Finite 2) (Finite 3) (Finite 4) (Finite 5) (Finite 6))) \<and>
   operator_neq neq_double
     (MotionVec (Vector6 (Finite 1) (Finite 2) (Finite 3) (Finite 4) (Finite 5) (Finite 6)))
     (MotionVec (Vector6 (Finite 1) (Finite 2) (Finite 3) (Finite 4) (Finite 5) (Finite 7)))"
proof -
  have "\<not> has_nan (MotionVec (Vector6 (Finite 1) (Finite 2) (Finite 3) (Finite 4) (Finite 5) (Finite 6)))"
    by (simp add: has_nan_def)
  moreover have "\<not> operator_eq eq_double
     (MotionVec (Vector6 (Finite 1) (Finite 2) (Finite 3) (Finite 4) (Finite 5) (Finite 6)))
     (MotionVec (Vector6 (Finite 1) (Finite 2) (Finite 3) (Finite 4) (Finite 5) (Finite 7)))"
    by (simp add: operator_eq_def)
  ultimately show ?thesis
    using operator_eq_exact [of "(=)" "0::int" 0 0 0 0 0 0 0 0 0 0 0
        "MotionVec (Vector6 (0::int) 0 0 0 0 0)" "MotionVec (Vector6 (0::int) 0 0 0 0 0)"
        "MotionVec (Vector6 (Finite 1) (Finite 2) (Finite 3) (Finite 4) (Finite 5) (Finite 6))"
        "MotionVec (Vector6 (Finite 1) (Finite 2) (Finite 3) (Finite 4) (Finite 5) (Finite 7))"]
    by simp
qed

text \<open>
  C10, as the claim states it (\<^verbatim>\<open>v == v\<close> always holds), fails for a double vector with a NaN
  coefficient: NaN compares unequal to itself, so \<^verbatim>\<open>v == v\<close> is false and \<^verbatim>\<open>v != v\<close> is true.
\<close>

theorem operator_eq_nan_not_reflexive:
  "\<not> operator_eq eq_double (MotionVec (Vector6 NaN 0 0 0 0 0)) (MotionVec (Vector6 NaN 0 0 0 0 0)) \<and>
   operator_neq neq_double (MotionVec (Vector6 NaN 0 0 0 0 0)) (MotionVec (Vector6 NaN 0 0 0 0 0))"
  by (simp add: operator_eq_def operator_neq_def neq_double_def)


section \<open>The spatial cross products and the pairing\<close>






text \<open>
  C6, amended. For every motion vector \<open>v\<close> over a scalar type with exact
  arithmetic (a commutative ring), \<^verbatim>\<open>v.cross(v)\<close> is the zero motion vector. For every motion
  vector \<open>d\<close> over \<open>double\<close>, \<^verbatim>\<open>d.cross(d)\<close> is the zero motion vector, and compares equal to
  it, exactly when none of its coefficients is NaN: rounding alone never makes a
  coefficient non-zero. In particular \<^verbatim>\<open>d.cross(d)\<close> is the zero motion vector whenever every
  coefficient of \<open>d\<close> is finite with magnitude at most \<open>2\<^sup>5\<^sup>1\<^sup>1\<close>, since then no product and
  no difference of products can overflow.
\<close>

theorem cross_self_zero:
  fixes v :: "'a::comm_ring MotionVec" and d :: "double MotionVec"
  shows "cross v v = MotionVec (Vector6 0 0 0 0 0 0) \<and>
    (cross d d = MotionVec (Vector6 0 0 0 0 0 0)) = (\<not> has_nan (cross d d)) \<and>
    operator_eq eq_double (cross d d) (MotionVec (Vector6 0 0 0 0 0 0)) =
      (\<not> has_nan (cross d d)) \<and>
    (bounded6 511 (vector d) \<longrightarrow> cross d d = MotionVec (Vector6 0 0 0 0 0 0))"
proof -
  obtain c0 c1 c2 c3 c4 c5 where v: "v = MotionVec (Vector6 c0 c1 c2 c3 c4 c5)"
    by (rule MotionVec_coeffs)
  have ring: "cross v v = MotionVec (Vector6 0 0 0 0 0 0)"
    unfolding v cross_coeffs by (simp add: mult.commute)
  obtain e0 e1 e2 e3 e4 e5 where e: "cross d d = MotionVec (Vector6 e0 e1 e2 e3 e4 e5)"
    by (rule MotionVec_coeffs)
  have eq: "operator_eq eq_double (cross d d) (MotionVec (Vector6 0 0 0 0 0 0)) =
      (cross d d = MotionVec (Vector6 0 0 0 0 0 0))"
    by (simp add: e operator_eq_def eq_double_zero)
  have nan: "operator_eq eq_double (cross d d) (MotionVec (Vector6 0 0 0 0 0 0)) =
      (\<not> has_nan (cross d d))"
    by (rule cross_double_self)
  have "cross d d = MotionVec (Vector6 0 0 0 0 0 0)" if "bounded6 511 (vector d)"
    using cross_double_no_nan [OF that that] eq nan by simp
  with ring eq nan show ?thesis
    by simp
qed

theorem cross_self_zero_witness:
  "bounded6 511 (Vector6 (Finite 1) (Finite 2) (Finite 3) (Finite 4) (Finite 5) (Finite 6)) \<and>
   cross (MotionVec (Vector6 (Finite 1) (Finite 2) (Finite 3) (Finite 4) (Finite 5) (Finite 6)))
      (MotionVec (Vector6 (Finite 1) (Finite 2) (Finite 3) (Finite 4) (Finite 5) (Finite 6))) =
     MotionVec (Vector6 0 0 0 0 0 0) \<and>
   \<not> has_nan
     (cross (MotionVec (Vector6 (Finite 1) (Finite 2) (Finite 3) (Finite 4) (Finite 5) (Finite 6)))
       (MotionVec (Vector6 (Finite 1) (Finite 2) (Finite 3) (Finite 4) (Finite 5) (Finite 6))))"
proof -
  let ?d = "MotionVec (Vector6 (Finite 1) (Finite 2) (Finite 3) (Finite 4) (Finite 5) (Finite 6))"
  have b: "bounded6 511 (vector ?d)"
    by simp
  with cross_self_zero [of "MotionVec (Vector6 (0::int) 0 0 0 0 0)" ?d]
  have "cross ?d ?d = MotionVec (Vector6 0 0 0 0 0 0)"
    by blast
  with b show ?thesis
    by (simp add: has_nan_def zero_double_def)
qed

text \<open>
  C6, as the claim states it (for every \<open>v\<close>), fails in double arithmetic when a product
  overflows: for the finite \<open>v = (1e200, 1e200, 0, 0, 0, 0)\<close>, with the double
  \<open>1e200 = 2941796710330669 * 2\<^sup>6\<^sup>1\<^sup>3\<close>, the third coefficient of \<^verbatim>\<open>v.cross(v)\<close> is
  \<open>\<infinity> - \<infinity>\<close>, which is NaN. The last conjunct says that the coefficient is a double: rounding
  leaves it unchanged.
\<close>

theorem cross_self_overflow:
  "cross (MotionVec (Vector6 (Finite (2941796710330669 * 2 ^ 613))
            (Finite (2941796710330669 * 2 ^ 613)) 0 0 0 0))
      (MotionVec (Vector6 (Finite (2941796710330669 * 2 ^ 613))
            (Finite (2941796710330669 * 2 ^ 613)) 0 0 0 0)) =
     MotionVec (Vector6 0 0 NaN 0 0 0) \<and>
   \<not> operator_eq eq_double
      (cross (MotionVec (Vector6 (Finite (2941796710330669 * 2 ^ 613))
            (Finite (2941796710330669 * 2 ^ 613)) 0 0 0 0))
        (MotionVec (Vector6 (Finite (2941796710330669 * 2 ^ 613))
            (Finite (2941796710330669 * 2 ^ 613)) 0 0 0 0)))
      (MotionVec (Vector6 0 0 0 0 0 0)) \<and>
   round_double (2941796710330669 * 2 ^ 613) = Finite (2941796710330669 * 2 ^ 613)"
proof -
  define x :: rat where "x = 2941796710330669 * 2 ^ 613"
  have x: "round_double x = Finite x"
    by (rule round_double_eqI [where k = 1738 and m = 5883593420661338])
      (simp_all add: x_def)
  have xx: "round_double (x * x) = PInf"
    by (rule round_double_overflowI [where k = 2402 and m = 7686445155841023])
      (simp_all add: x_def)
  have "cross (MotionVec (Vector6 (Finite x) (Finite x) 0 0 0 0))
      (MotionVec (Vector6 (Finite x) (Finite x) 0 0 0 0)) = MotionVec (Vector6 0 0 NaN 0 0 0)"
    by (simp add: cross_coeffs zero_double_def minus_double_def xx)
  with x show ?thesis
    unfolding x_def by (simp add: operator_eq_def)
qed

text \<open>
  C7, amended. For all motion vectors \<open>a\<close> and \<open>b\<close> over a scalar type with
  exact arithmetic (a commutative ring), \<^verbatim>\<open>a.cross(b)\<close> is the coefficientwise negation of
  \<^verbatim>\<open>b.cross(a)\<close>. For all motion vectors \<open>c\<close> and \<open>d\<close> over \<open>double\<close>, \<^verbatim>\<open>c.cross(d)\<close> compares equal
  to \<^verbatim>\<open>-(d.cross(c))\<close> exactly when no coefficient of \<^verbatim>\<open>c.cross(d)\<close> is NaN: the two vectors
  carry the same value in every coefficient, and only a NaN compares unequal to itself.
  In particular the two compare equal whenever every coefficient of \<open>c\<close> and of \<open>d\<close> is
  finite with magnitude at most \<open>2\<^sup>5\<^sup>1\<^sup>1\<close>.
\<close>

theorem cross_antisymmetric:
  fixes a b :: "'a::comm_ring MotionVec" and c d :: "double MotionVec"
  shows "cross a b = operator_neg (cross b a) \<and>
    operator_eq eq_double (cross c d) (operator_neg (cross d c)) = (\<not> has_nan (cross c d)) \<and>
    (bounded6 511 (vector c) \<and> bounded6 511 (vector d) \<longrightarrow>
      operator_eq eq_double (cross c d) (operator_neg (cross d c)))"
proof -
  obtain a0 a1 a2 a3 a4 a5 where a: "a = MotionVec (Vector6 a0 a1 a2 a3 a4 a5)"
    by (rule MotionVec_coeffs)
  obtain b0 b1 b2 b3 b4 b5 where b: "b = MotionVec (Vector6 b0 b1 b2 b3 b4 b5)"
    by (rule MotionVec_coeffs)
  have "cross a b = operator_neg (cross b a)"
    unfolding a b cross_coeffs operator_neg_def by (simp add: algebra_simps)
  moreover have nan: "operator_eq eq_double (cross c d) (operator_neg (cross d c)) =
      (\<not> has_nan (cross c d))"
    by (simp add: cross_double_antisymmetric [of c d, symmetric] operator_eq_double_refl)
  moreover have "operator_eq eq_double (cross c d) (operator_neg (cross d c))"
    if "bounded6 511 (vector c)" and "bounded6 511 (vector d)"
    using cross_double_no_nan [OF that] nan by simp
  ultimately show ?thesis
    by blast
qed

theorem cross_antisymmetric_witness:
  "bounded6 511 (Vector6 (Finite 1) (Finite 2) (Finite 3) (Finite 4) (Finite 5) (Finite 6)) \<and>
   bounded6 511 (Vector6 (Finite 6) (Finite 5) (Finite 4) (Finite 3) (Finite 2) (Finite 1)) \<and>
   operator_eq eq_double
     (cross (MotionVec (Vector6 (Finite 1) (Finite 2) (Finite 3) (Finite 4) (Finite 5) (Finite 6)))
       (MotionVec (Vector6 (Finite 6) (Finite 5) (Finite 4) (Finite 3) (Finite 2) (Finite 1))))
     (operator_neg
       (cross (MotionVec (Vector6 (Finite 6) (Finite 5) (Finite 4) (Finite 3) (Finite 2) (Finite 1)))
         (MotionVec (Vector6 (Finite 1) (Finite 2) (Finite 3) (Finite 4) (Finite 5) (Finite 6)))))"
proof -
  let ?c = "MotionVec (Vector6 (Finite 1) (Finite 2) (Finite 3) (Finite 4) (Finite 5) (Finite 6))"
  let ?d = "MotionVec (Vector6 (Finite 6) (Finite 5) (Finite 4) (Finite 3) (Finite 2) (Finite 1))"
  have b: "bounded6 511 (vector ?c)" "bounded6 511 (vector ?d)"
    by simp_all
  with cross_antisymmetric [of "MotionVec (Vector6 (0::int) 0 0 0 0 0)"
      "MotionVec (Vector6 (0::int) 0 0 0 0 0)" ?c ?d]
  have "operator_eq eq_double (cross ?c ?d) (operator_neg (cross ?d ?c))"
    by blast
  with b show ?thesis
    by simp
qed

text \<open>
  C7, as the claim states it (for every \<open>a\<close> and \<open>b\<close>), fails in double arithmetic when
  products overflow: for the finite \<open>a = (1e200, 1e200, 0, 0, 0, 0)\<close> and
  \<open>b = (1e200, 2e200, 0, 0, 0, 0)\<close>, with the doubles \<open>1e200 = 2941796710330669 * 2\<^sup>6\<^sup>1\<^sup>3\<close>
  and \<open>2e200 = 2941796710330669 * 2\<^sup>6\<^sup>1\<^sup>4\<close>, the third coefficient of both
  \<^verbatim>\<open>a.cross(b)\<close> and \<^verbatim>\<open>-(b.cross(a))\<close> is NaN, and the comparison is false. The last two
  conjuncts say that the coefficients are doubles: rounding leaves them unchanged.
\<close>

theorem cross_antisymmetric_overflow:
  "cross (MotionVec (Vector6 (Finite (2941796710330669 * 2 ^ 613))
            (Finite (2941796710330669 * 2 ^ 613)) 0 0 0 0))
      (MotionVec (Vector6 (Finite (2941796710330669 * 2 ^ 613))
            (Finite (2941796710330669 * 2 ^ 614)) 0 0 0 0)) =
     MotionVec (Vector6 0 0 NaN 0 0 0) \<and>
   \<not> operator_eq eq_double
      (cross (MotionVec (Vector6 (Finite (2941796710330669 * 2 ^ 613))
            (Finite (2941796710330669 * 2 ^ 613)) 0 0 0 0))
        (MotionVec (Vector6 (Finite (2941796710330669 * 2 ^ 613))
            (Finite (2941796710330669 * 2 ^ 614)) 0 0 0 0)))
      (operator_neg
        (cross (MotionVec (Vector6 (Finite (2941796710330669 * 2 ^ 613))
            (Finite (2941796710330669 * 2 ^ 614)) 0 0 0 0))
          (MotionVec (Vector6 (Finite (2941796710330669 * 2 ^ 613))
            (Finite (2941796710330669 * 2 ^ 613)) 0 0 0 0)))) \<and>
   round_double (2941796710330669 * 2 ^ 613) = Finite (2941796710330669 * 2 ^ 613) \<and>
   round_double (2941796710330669 * 2 ^ 614) = Finite (2941796710330669 * 2 ^ 614)"
proof -
  define x :: rat where "x = 2941796710330669 * 2 ^ 613"
  define y :: rat where "y = 2941796710330669 * 2 ^ 614"
  have x: "round_double x = Finite x"
    by (rule round_double_eqI [where k = 1738 and m = 5883593420661338])
      (simp_all add: x_def)
  have y: "round_double y = Finite y"
    by (rule round_double_eqI [where k = 1739 and m = 5883593420661338])
      (simp_all add: y_def)
  have xx: "round_double (x * x) = PInf"
    by (rule round_double_overflowI [where k = 2402 and m = 7686445155841023])
      (simp_all add: x_def)
  have xy: "round_double (x * y) = PInf"
    by (rule round_double_overflowI [where k = 2403 and m = 7686445155841023])
      (simp_all add: x_def y_def)
  have ab: "cross (MotionVec (Vector6 (Finite x) (Finite x) 0 0 0 0))
      (MotionVec (Vector6 (Finite x) (Finite y) 0 0 0 0)) = MotionVec (Vector6 0 0 NaN 0 0 0)"
    by (simp add: cross_coeffs zero_double_def minus_double_def xx xy)
  have "operator_neg (cross (MotionVec (Vector6 (Finite x) (Finite y) 0 0 0 0))
      (MotionVec (Vector6 (Finite x) (Finite x) 0 0 0 0))) = MotionVec (Vector6 0 0 NaN 0 0 0)"
    unfolding ab [symmetric] by (rule cross_double_antisymmetric [symmetric])
  with ab x y show ?thesis
    unfolding x_def y_def by (simp add: operator_eq_def)
qed

end
